theory Spec2Isabelle
  imports Main
begin

section \<open>create-svelte-lib: the scaffolding command of \<^verbatim>\<open>src/bin.ts\<close>\<close>

text \<open>
  The program is one asynchronous function, \<^verbatim>\<open>create\<close>, that talks to the terminal,
  the file system, the network and to child processes. The embedding makes every one of
  these effects explicit: an action takes the list of events that have happened so far
  and returns the extended list together with either a value or the way the run stopped.
  What the outside world answers is a parameter, the record \<open>world\<close>.

  The model starts at \<^verbatim>\<open>let cwd = process.argv[2] || '.'\<close>; the version banner
  printed before that is left out. \<^verbatim>\<open>create()\<close> is called with no handler, so an
  exception that leaves it ends the run as an unhandled rejection.
\<close>

subsection \<open>JSON values and JavaScript string conversion\<close>

text \<open>
  The value \<^verbatim>\<open>JSON.parse\<close> or \<^verbatim>\<open>body.json()\<close> returns. A number carries the text
  JavaScript prints for it, so that interpolating it into a template string is the
  identity; an object is the list of its own properties in insertion order.
\<close>

datatype json =
    JNull
  | JBool bool
  | JNum string
  | JStr string
  | JArr "json list"
  | JObj "(string \<times> json) list"

text \<open>Reading an own property of a parsed object; \<open>None\<close> is \<^verbatim>\<open>undefined\<close>.\<close>

definition getProp :: "(string \<times> json) list \<Rightarrow> string \<Rightarrow> json option" where
  "getProp props k = map_of props k"

text \<open>
  \<^verbatim>\<open>ToString\<close> of a JSON value, as a template string applies it. \<open>None\<close> is a thrown
  \<^verbatim>\<open>TypeError\<close>: a plain object converts through \<^verbatim>\<open>Object.prototype.toString\<close>
  unless an own property \<^verbatim>\<open>toString\<close> (never callable in parsed JSON) shadows it.
  An array joins its elements with commas, \<^verbatim>\<open>null\<close> elements being empty.
\<close>

fun toString :: "json \<Rightarrow> string option"
  and joinElems :: "json list \<Rightarrow> string option"
  and elemString :: "json \<Rightarrow> string option" where
  "toString JNull = Some ''null''"
| "toString (JBool b) = Some (if b then ''true'' else ''false'')"
| "toString (JNum s) = Some s"
| "toString (JStr s) = Some s"
| "toString (JArr xs) = joinElems xs"
| "toString (JObj props) =
     (if ''toString'' \<in> fst ` set props then None else Some ''[object Object]'')"
| "joinElems [] = Some []"
| "joinElems [x] = elemString x"
| "joinElems (x # y # ys) =
     (case elemString x of
        None \<Rightarrow> None
      | Some s \<Rightarrow> (case joinElems (y # ys) of None \<Rightarrow> None | Some t \<Rightarrow> Some (s @ '','' @ t)))"
| "elemString JNull = Some []"
| "elemString (JBool b) = toString (JBool b)"
| "elemString (JNum s) = toString (JNum s)"
| "elemString (JStr s) = toString (JStr s)"
| "elemString (JArr xs) = toString (JArr xs)"
| "elemString (JObj props) = toString (JObj props)"


subsection \<open>Events, outcomes and the outside world\<close>

text \<open>
  Everything the program does to its surroundings, in the order it does it. The colour
  functions of \<^verbatim>\<open>kleur\<close> only wrap a string in escape codes and are left out.
\<close>

datatype event =
    Print string
  | Intro string
  | Outro string
  | Note string string
  | SpinnerStart string
  | SpinnerStop string
  | AskText string
  | AskConfirm string
  | AskSelect string
  | AskMultiselect string
  | Request string
  | CreateSvelteKitApp string string "string option" bool bool bool bool
  | ReadManifest string
  | WriteManifest string json
  | Copy string string
  | Execa string "string list" string

text \<open>
  A run stops early through \<^verbatim>\<open>process.exit(n)\<close>, which no handler intercepts, or through
  a thrown exception (a rejected promise), which the nearest \<^verbatim>\<open>try\<close> block catches.
\<close>

datatype stop = Exit nat | Thrown

type_synonym 'a io = "event list \<Rightarrow> event list \<times> (stop + 'a)"

definition ret :: "'a \<Rightarrow> 'a io" where
  "ret a tr = (tr, Inr a)"

definition emit :: "event \<Rightarrow> unit io" where
  "emit e tr = (tr @ [e], Inr ())"

definition exit_process :: "nat \<Rightarrow> 'a io" where
  "exit_process n tr = (tr, Inl (Exit n))"

definition throw :: "'a io" where
  "throw tr = (tr, Inl Thrown)"

definition bind :: "'a io \<Rightarrow> ('a \<Rightarrow> 'b io) \<Rightarrow> 'b io" where
  "bind m f tr = (case m tr of (tr', Inl s) \<Rightarrow> (tr', Inl s) | (tr', Inr a) \<Rightarrow> f a tr')"

definition seq :: "unit io \<Rightarrow> 'b io \<Rightarrow> 'b io" where
  "seq m k = bind m (\<lambda>_. k)"

definition try_catch :: "'a io \<Rightarrow> 'a io \<Rightarrow> 'a io" where
  "try_catch m handler tr =
     (case m tr of (tr', Inl Thrown) \<Rightarrow> handler tr' | r \<Rightarrow> r)"

text \<open>The answer to a prompt: a value, or the cancel symbol (\<^verbatim>\<open>p.isCancel\<close>).\<close>

datatype 'a answer = Answered 'a | Cancelled

text \<open>
  The response of \<^verbatim>\<open>undici\<close>'s \<^verbatim>\<open>request\<close>: it resolves for every status code;
  \<open>body_json\<close> is what \<^verbatim>\<open>response.body.json()\<close> yields, \<open>None\<close> when it rejects
  (the body is not JSON).
\<close>

record response =
  statusCode :: nat
  body_json :: "json option"

text \<open>
  What the surroundings answer. A child process or a copy may be asked for several
  times, so its success may depend on everything that happened before it.
\<close>

record world =
  argv2 :: "string option"
  text_dir :: "string answer"
  existsSync :: "string \<Rightarrow> bool"
  readdirSync :: "string \<Rightarrow> string list option"
  confirm_force :: "bool answer"
  select_types :: "string answer"
  multiselect_features :: "string list answer"
  multiselect_extras :: "string list answer"
  confirm_git :: "bool answer"
  select_packageManager :: "string answer"
  confirm_install :: "bool answer"
  request :: "string \<Rightarrow> response option"
  createSvelteKitApp_ok :: bool
  readManifest :: "string \<Rightarrow> json option"
  writeManifest_ok :: bool
  copy_ok :: "event list \<Rightarrow> string \<Rightarrow> bool"
  execa_ok :: "event list \<Rightarrow> string \<Rightarrow> string list \<Rightarrow> bool"
  basename_resolve :: "string \<Rightarrow> string"
  relative :: "string \<Rightarrow> string"

text \<open>The Configuration Choices, the result of \<^verbatim>\<open>p.group\<close>.\<close>

record options =
  types :: string
  features :: "string list"
  extras :: "string list"
  git :: bool
  packageManager :: string
  install :: bool

subsection \<open>Primitive actions\<close>

definition fallible :: "event \<Rightarrow> bool \<Rightarrow> unit io" where
  "fallible e ok tr = (tr @ [e], if ok then Inr () else Inl Thrown)"

definition execa :: "world \<Rightarrow> string \<Rightarrow> string list \<Rightarrow> string \<Rightarrow> unit io" where
  "execa w cmd args cwd tr = fallible (Execa cmd args cwd) (execa_ok w tr cmd args) tr"

definition copy :: "world \<Rightarrow> string \<Rightarrow> string \<Rightarrow> unit io" where
  "copy w template cwd tr = fallible (Copy template cwd) (copy_ok w tr template) tr"

definition of_option :: "'a option \<Rightarrow> 'a io" where
  "of_option x = (case x of None \<Rightarrow> throw | Some a \<Rightarrow> ret a)"

definition http_request :: "world \<Rightarrow> string \<Rightarrow> response io" where
  "http_request w url = seq (emit (Request url)) (of_option (request w url))"

definition ask :: "event \<Rightarrow> 'a answer \<Rightarrow> 'a answer io" where
  "ask e a = seq (emit e) (ret a)"

text \<open>A prompt of \<^verbatim>\<open>p.group\<close>, whose \<^verbatim>\<open>onCancel\<close> is \<^verbatim>\<open>process.exit(1)\<close>.\<close>

definition group_prompt :: "event \<Rightarrow> 'a answer \<Rightarrow> 'a io" where
  "group_prompt e a =
     bind (ask e a) (\<lambda>r. case r of Cancelled \<Rightarrow> exit_process 1 | Answered v \<Rightarrow> ret v)"

definition cross :: string where
  "cross = [CHR 0xE2, CHR 0x9C, CHR 0x98]"

definition check_mark :: string where
  "check_mark = [CHR 0xE2, CHR 0x9C, CHR 0x94]"

definition nl :: string where
  "nl = [CHR 0x0A]"

subsection \<open>The Version Resolver\<close>

definition registry_url :: "string \<Rightarrow> string \<Rightarrow> string" where
  "registry_url packageName rng =
     ''https://cdn.jsdelivr.net/npm/'' @ packageName @ ''@'' @ rng @ ''/package.json''"

text \<open>
  The template string \<^verbatim>\<open>`^${packageJson.version}`\<close>: reading a property of \<^verbatim>\<open>null\<close>
  throws, a missing property is \<^verbatim>\<open>undefined\<close>, and so is any property of a string,
  a number, a boolean or an array that is called \<^verbatim>\<open>version\<close>.
\<close>

definition caret_version :: "json \<Rightarrow> string option" where
  "caret_version packageJson =
     (case packageJson of
        JNull \<Rightarrow> None
      | JObj props \<Rightarrow>
          (case getProp props ''version'' of
             None \<Rightarrow> Some ''^undefined''
           | Some v \<Rightarrow> map_option (\<lambda>s. ''^'' @ s) (toString v))
      | _ \<Rightarrow> Some ''^undefined'')"

definition resolve_warning :: "string \<Rightarrow> string \<Rightarrow> string" where
  "resolve_warning packageName rng =
     cross @ '' Failed to resolve package version for '' @ packageName @
     '', using '' @ rng @ '' instead''"

definition resolvePackageVersion :: "world \<Rightarrow> string \<Rightarrow> string option \<Rightarrow> string io" where
  "resolvePackageVersion w packageName rangeArg =
     (let rng = (case rangeArg of None \<Rightarrow> ''latest'' | Some r \<Rightarrow> r) in
      try_catch
        (bind (http_request w (registry_url packageName rng)) (\<lambda>response.
         bind (of_option (body_json response)) (\<lambda>packageJson.
         of_option (caret_version packageJson))))
        (seq (emit (Print (resolve_warning packageName rng))) (ret rng)))"

subsection \<open>Resolving the dev-dependencies of the selected extras\<close>

text \<open>
  A \<^verbatim>\<open>Record<string, string>\<close> in insertion order; assigning to a present key keeps
  its place.
\<close>

fun setProp :: "string \<Rightarrow> 'v \<Rightarrow> (string \<times> 'v) list \<Rightarrow> (string \<times> 'v) list" where
  "setProp k v [] = [(k, v)]"
| "setProp k v ((k', v') # rest) =
     (if k = k' then (k, v) # rest else (k', v') # setProp k v rest)"

type_synonym deps = "(string \<times> string list) list"

definition devDeps :: deps where
  "devDeps =
     [(''@changesets/cli'',
         [''@changesets/cli'', ''@svitejs/changesets-changelog-github-compact'']),
      (''tailwindcss'', [''tailwindcss'', ''postcss'', ''autoprefixer''])]"

fun resolvePackages ::
  "world \<Rightarrow> string list \<Rightarrow> (string \<times> string) list \<Rightarrow> (string \<times> string) list io" where
  "resolvePackages w [] resolvedDeps = ret resolvedDeps"
| "resolvePackages w (pkg # pkgs) resolvedDeps =
     bind (resolvePackageVersion w pkg None) (\<lambda>v.
     resolvePackages w pkgs (setProp pkg v resolvedDeps))"

fun resolveEntries ::
  "world \<Rightarrow> options \<Rightarrow> deps \<Rightarrow> (string \<times> string) list \<Rightarrow> (string \<times> string) list io" where
  "resolveEntries w opts [] resolvedDeps = ret resolvedDeps"
| "resolveEntries w opts ((name, packages) # rest) resolvedDeps =
     (if name \<notin> set (extras opts) then resolveEntries w opts rest resolvedDeps
      else bind (resolvePackages w packages resolvedDeps) (resolveEntries w opts rest))"

definition resolveDeps :: "world \<Rightarrow> options \<Rightarrow> deps \<Rightarrow> (string \<times> string) list io" where
  "resolveDeps w opts deps = resolveEntries w opts deps []"

definition newPackageJson :: "(string \<times> string) list \<Rightarrow> json" where
  "newPackageJson resolved =
     JObj [(''devDependencies'', JObj (map (\<lambda>(k, v). (k, JStr v)) resolved)),
           (''scripts'', JObj [])]"


subsection \<open>The Dependency Merger\<close>

text \<open>
  Modelled from the spec: \<^verbatim>\<open>Merger.mergeObjects\<close> of the package \<^verbatim>\<open>json-merger\<close>,
  which \<^verbatim>\<open>bin.ts\<close> calls on the pair of the generated manifest and the overlay and
  whose code is not part of the sources. The spec's contract: for each key present in
  either document, if only one side defines it, that value is used; if both sides define
  a mapping at that key, merge recursively; otherwise the overlay's value wins (last
  writer wins on key conflicts).
\<close>

fun mergeObjects :: "json \<Rightarrow> json \<Rightarrow> json" where
  "mergeObjects (JObj base) (JObj overlay) =
     JObj (map (\<lambda>(k, v). case map_of overlay k of
                             None \<Rightarrow> (k, v)
                           | Some u \<Rightarrow> (k, mergeObjects v u)) base
           @ filter (\<lambda>(k, u). map_of base k = None) overlay)"
| "mergeObjects base overlay = overlay"

subsection \<open>The steps of \<^verbatim>\<open>create\<close>\<close>

text \<open>Lines 23 to 37: \<^verbatim>\<open>let cwd = process.argv[2] || '.'\<close> and the directory prompt.\<close>

definition resolve_cwd :: "world \<Rightarrow> string io" where
  "resolve_cwd w =
     (let cwd = (case argv2 w of None \<Rightarrow> ''.'' | Some a \<Rightarrow> if a = [] then ''.'' else a) in
      if cwd = ''.'' then
        bind (ask (AskText ''Where should we create your project?'') (text_dir w)) (\<lambda>dir.
          case dir of
            Cancelled \<Rightarrow> exit_process 1
          | Answered d \<Rightarrow> ret (if d \<noteq> [] then d else cwd))
      else ret cwd)"

text \<open>Lines 39 to 49: the confirmation gate of a directory that is not empty.\<close>

definition confirm_gate :: "world \<Rightarrow> string \<Rightarrow> unit io" where
  "confirm_gate w cwd =
     (if existsSync w cwd then
        bind (of_option (readdirSync w cwd)) (\<lambda>entries.
          if length entries > 0 then
            bind (ask (AskConfirm ''Directory not empty. Continue?'') (confirm_force w)) (\<lambda>force.
              if force \<noteq> Answered True then exit_process 1 else ret ())
          else ret ())
      else ret ())"

text \<open>Lines 51 to 136: the six prompts of \<^verbatim>\<open>p.group\<close>, in order.\<close>

definition collect_options :: "world \<Rightarrow> options io" where
  "collect_options w =
     bind (group_prompt (AskSelect ''Add type checking with TypeScript?'') (select_types w)) (\<lambda>t.
     bind (group_prompt (AskMultiselect ''Select additional options (use arrow keys/space bar)'')
             (multiselect_features w)) (\<lambda>f.
     bind (group_prompt (AskMultiselect ''Select extras (use arrow keys/space bar)'')
             (multiselect_extras w)) (\<lambda>e.
     bind (group_prompt (AskConfirm ''Initialize a git repository?'') (confirm_git w)) (\<lambda>g.
     bind (group_prompt (AskSelect ''Select a package manager'') (select_packageManager w)) (\<lambda>pm.
     bind (group_prompt (AskConfirm (''Install dependencies using '' @ pm @ ''?''))
             (confirm_install w)) (\<lambda>i.
     ret \<lparr>types = t, features = f, extras = e, git = g, packageManager = pm,
          install = i\<rparr>))))))"

text \<open>
  Lines 156 to 211: the generator (always with the template \<^verbatim>\<open>skeletonlib\<close>, which
  the event does not record), then the manifest is read, the versions are resolved, the
  overlay is merged in and the manifest is written back.
\<close>

definition generate :: "world \<Rightarrow> string \<Rightarrow> options \<Rightarrow> unit io" where
  "generate w cwd opts =
     fallible
       (CreateSvelteKitApp cwd (basename_resolve w cwd)
          (if types opts = ''null'' then None else Some (types opts))
          (''prettier'' \<in> set (features opts))
          (''eslint'' \<in> set (features opts))
          (''playwright'' \<in> set (features opts))
          (''vitest'' \<in> set (features opts)))
       (createSvelteKitApp_ok w)"

definition rewrite_manifest :: "world \<Rightarrow> string \<Rightarrow> options \<Rightarrow> unit io" where
  "rewrite_manifest w cwd opts =
     bind (seq (emit (ReadManifest cwd)) (of_option (readManifest w cwd))) (\<lambda>svelteKitPkg.
     seq (emit (SpinnerStart ''Resolving package versions''))
    (bind (resolveDeps w opts devDeps) (\<lambda>resolved.
     let mergedPkg = mergeObjects svelteKitPkg (newPackageJson resolved) in
     seq (emit (SpinnerStop ''Resolved package versions''))
         (fallible (WriteManifest cwd mergedPkg) (writeManifest_ok w)))))"

text \<open>Lines 215 to 222: the base templates.\<close>

definition copy_templates :: "world \<Rightarrow> string \<Rightarrow> options \<Rightarrow> unit io" where
  "copy_templates w cwd opts =
     (if types opts = ''typescript'' then copy w ''typescript'' cwd
      else copy w ''javascript'' cwd)"

text \<open>Lines 224 to 238: the install step, which returns the choices as it leaves them.\<close>

definition install_step :: "world \<Rightarrow> string \<Rightarrow> options \<Rightarrow> options io" where
  "install_step w cwd opts =
     (let pkgManager = packageManager opts in
      if install opts then
        try_catch
          (seq (emit (SpinnerStart (''Installing dependencies using '' @ pkgManager)))
          (seq (execa w pkgManager [''install''] cwd)
          (seq (emit (SpinnerStop (''Installed dependencies using '' @ pkgManager)))
               (ret opts))))
          (seq (emit (SpinnerStop ''Failed to install dependencies''))
          (seq (emit (Note ''You can install them manually.'' []))
               (ret (opts\<lparr>install := False\<rparr>))))
      else ret opts)"

text \<open>Lines 240 to 245: the git repository. There is no \<^verbatim>\<open>try\<close> around these calls.\<close>

definition git_step :: "world \<Rightarrow> string \<Rightarrow> options \<Rightarrow> unit io" where
  "git_step w cwd opts =
     (if git opts then
        seq (execa w ''git'' [''init''] cwd)
       (seq (execa w ''git'' [''add'', ''-A''] cwd)
            (execa w ''git'' [''commit'', ''-m'', ''Initial commit''] cwd))
      else ret ())"

text \<open>Lines 247 to 276: the two extras.\<close>

definition changesets_step :: "world \<Rightarrow> string \<Rightarrow> options \<Rightarrow> unit io" where
  "changesets_step w cwd opts =
     (if ''@changesets/cli'' \<in> set (extras opts) then
        try_catch
          (seq (emit (SpinnerStart ''Initializing changesets''))
          (seq (execa w ''npx'' [''changeset'', ''init''] cwd)
          (seq (copy w ''changesets'' cwd)
          (seq (execa w ''git'' [''add'', ''-A''] cwd)
          (seq (execa w ''git'' [''commit'', ''-m'', ''feat: added changeset''] cwd)
               (emit (SpinnerStop ''Initialized changesets'')))))))
          (seq (emit (SpinnerStop ''Failed to initialize changesets''))
               (emit (Note ''npx changeset init'' ''Initialize changesets manually.'')))
      else ret ())"

definition tailwind_step :: "world \<Rightarrow> string \<Rightarrow> options \<Rightarrow> unit io" where
  "tailwind_step w cwd opts =
     (if ''tailwindcss'' \<in> set (extras opts) then
        try_catch
          (seq (emit (SpinnerStart ''Initializing tailwindcss''))
          (seq (execa w ''npx'' [''tailwindcss'', ''init'', ''-p''] cwd)
          (seq (copy w ''tailwind'' cwd)
          (seq (execa w ''git'' [''add'', ''-A''] cwd)
          (seq (execa w ''git'' [''commit'', ''-m'', ''feat: added tailwindcss''] cwd)
               (emit (SpinnerStop ''Initialized tailwindcss'')))))))
          (seq (emit (SpinnerStop ''Failed to initialize tailwindcss''))
               (emit (Note ''npx tailwindcss init -p'' ''Initialize tailwindcss manually.'')))
      else ret ())"

text \<open>Lines 278 to 337: the summary. A step number is a small positive integer.\<close>

fun show_nat :: "nat \<Rightarrow> string" where
  "show_nat n =
     (if n < 10 then [char_of (48 + n)]
      else show_nat (n div 10) @ [char_of (48 + n mod 10)])"

declare show_nat.simps [simp del]

definition chosen_lines :: "options \<Rightarrow> string list" where
  \<open>chosen_lines opts =
     (if types opts = ''typescript'' then
        [check_mark @ '' Typescript'',
         ''  Inside Svelte components, use <script lang="ts">'' @ nl]
      else if types opts = ''checkjs'' then
        [check_mark @ '' Type-checked JavaScript'',
         ''  https://www.typescriptlang.org/tsconfig#checkJs'' @ nl]
      else [])
     @ (if ''eslint'' \<in> set (features opts) then
          [check_mark @ '' ESLint'',
           ''  https://github.com/sveltejs/eslint-plugin-svelte'' @ nl]
        else [])
     @ (if ''prettier'' \<in> set (features opts) then
          [check_mark @ '' Prettier'',
           ''  https://prettier.io/docs/en/options.html'',
           ''  https://github.com/sveltejs/prettier-plugin-svelte#options'' @ nl]
        else [])
     @ (if ''playwright'' \<in> set (features opts) then
          [check_mark @ '' Playwright'', ''  https://playwright.dev'' @ nl]
        else [])
     @ (if ''vitest'' \<in> set (features opts) then
          [check_mark @ '' Vitest'', ''  https://vitest.dev'' @ nl]
        else [])
     @ (if ''@changesets/cli'' \<in> set (extras opts) then
          [check_mark @ '' Changesets'', ''  https://github.com/changesets/changesets'' @ nl]
        else [])
     @ (if ''tailwindcss'' \<in> set (extras opts) then
          [check_mark @ '' Tailwindcss'', ''  https://tailwindcss.com/docs'' @ nl]
        else [])
     @ (if git opts then
          [check_mark @ '' Git'', ''  Initialized a git repository.'']
        else [])\<close>

definition step_line :: "nat \<Rightarrow> string \<Rightarrow> string" where
  "step_line step command = ''  '' @ show_nat step @ '': '' @ command"

definition git_init_command :: string where
  \<open>git_init_command = ''git init && git add -A && git commit -m "Initial commit"''\<close>

definition next_steps :: "world \<Rightarrow> string \<Rightarrow> options \<Rightarrow> string list" where
  "next_steps w cwd opts =
     (let pkgManager = packageManager opts;
          step = 1;
          rel = relative w cwd;
          (l1, step) = (if rel \<noteq> [] then ([step_line step (''cd '' @ rel)], step + 1)
                        else ([], step));
          (l2, step) = (if \<not> install opts
                        then ([step_line step (pkgManager @ '' install'')], step + 1)
                        else ([], step));
          (l3, step) = (if \<not> git opts
                        then ([step_line step git_init_command @ '' (optional)''], step + 1)
                        else ([], step))
      in [nl @ ''Next steps:''] @ l1 @ l2 @ l3
         @ [step_line step (pkgManager @ '' run dev -- --open''),
            nl @ ''To close the dev server, hit Ctrl-C''])"

definition emit_all :: "event list \<Rightarrow> unit io" where
  "emit_all es tr = (tr @ es, Inr ())"

definition summary :: "world \<Rightarrow> string \<Rightarrow> options \<Rightarrow> unit io" where
  "summary w cwd opts =
     seq (emit (Outro ''Your project is ready!''))
         (emit_all (map Print (chosen_lines opts @ next_steps w cwd opts)))"

subsection \<open>The whole run\<close>

text \<open>
  \<open>prepare\<close> is the run up to and including the rewritten manifest, \<open>finish\<close> the rest
  from the template copy on (\<open>after_templates\<close> what follows that copy); \<open>create\<close> starts with no event behind it and returns the
  choices as the summary saw them.
\<close>

definition prepare :: "world \<Rightarrow> (string \<times> options) io" where
  "prepare w =
     seq (emit (Intro ''Welcome!''))
    (bind (resolve_cwd w) (\<lambda>cwd.
     seq (confirm_gate w cwd)
    (bind (collect_options w) (\<lambda>opts.
     seq (generate w cwd opts)
    (seq (rewrite_manifest w cwd opts)
         (ret (cwd, opts)))))))"

definition after_templates :: "world \<Rightarrow> string \<Rightarrow> options \<Rightarrow> options io" where
  "after_templates w cwd opts =
     bind (install_step w cwd opts) (\<lambda>opts'.
     seq (git_step w cwd opts')
    (seq (changesets_step w cwd opts')
    (seq (tailwind_step w cwd opts')
    (seq (summary w cwd opts')
         (ret opts')))))"

definition finish :: "world \<Rightarrow> string \<Rightarrow> options \<Rightarrow> options io" where
  "finish w cwd opts = seq (copy_templates w cwd opts) (after_templates w cwd opts)"

definition create :: "world \<Rightarrow> event list \<times> (stop + options)" where
  "create w = bind (prepare w) (\<lambda>(cwd, opts). finish w cwd opts) []"

subsection \<open>Kinds of events\<close>

fun is_base_copy :: "event \<Rightarrow> bool" where
  "is_base_copy (Copy template cwd) = (template = ''typescript'' \<or> template = ''javascript'')"
| "is_base_copy _ = False"

fun writes_files :: "event \<Rightarrow> bool" where
  "writes_files (CreateSvelteKitApp cwd name t p e pw v) = True"
| "writes_files (WriteManifest cwd m) = True"
| "writes_files (Copy template cwd) = True"
| "writes_files (Execa cmd args cwd) = True"
| "writes_files _ = False"

fun is_ask_text :: "event \<Rightarrow> bool" where
  "is_ask_text (AskText m) = True"
| "is_ask_text _ = False"

text \<open>
  An action only ever appends events; \<open>emits P m\<close> says that every event it appends
  satisfies \<open>P\<close>.
\<close>

definition emits :: "(event \<Rightarrow> bool) \<Rightarrow> 'a io \<Rightarrow> bool" where
  "emits P m = (\<forall>tr. \<exists>es. fst (m tr) = tr @ es \<and> list_all P es)"




subsection \<open>Concrete surroundings\<close>

text \<open>
  A run in which everything succeeds: the target \<^verbatim>\<open>my-app\<close> is given on the command
  line and does not exist yet, every prompt is answered with its initial value, the
  registry knows every package, every child process exits with zero.
\<close>

definition generated_manifest :: json where
  "generated_manifest =
     JObj [(''name'', JStr ''my-app''),
           (''devDependencies'', JObj [(''svelte'', JStr ''^4.0.0'')])]"

definition published :: response where
  "published = \<lparr>statusCode = 200, body_json = Some (JObj [(''version'', JStr ''1.2.3'')])\<rparr>"

definition nominal :: world where
  "nominal =
     \<lparr>argv2 = Some ''my-app'', text_dir = Cancelled, existsSync = (\<lambda>_. False),
      readdirSync = (\<lambda>_. None), confirm_force = Cancelled,
      select_types = Answered ''checkjs'', multiselect_features = Answered [],
      multiselect_extras = Answered [], confirm_git = Answered True,
      select_packageManager = Answered ''npm'', confirm_install = Answered True,
      request = (\<lambda>_. Some published), createSvelteKitApp_ok = True,
      readManifest = (\<lambda>_. Some generated_manifest), writeManifest_ok = True,
      copy_ok = (\<lambda>_ _. True), execa_ok = (\<lambda>_ _ _. True),
      basename_resolve = (\<lambda>p. p), relative = (\<lambda>p. p)\<rparr>"

text \<open>The registry cannot be reached: every request throws.\<close>

definition offline :: world where
  "offline = nominal\<lparr>request := (\<lambda>_. None)\<rparr>"

text \<open>The registry answers 404 with a JSON body that has no version.\<close>

definition not_found :: response where
  "not_found = \<lparr>statusCode = 404, body_json = Some (JObj [(''error'', JStr ''not found'')])\<rparr>"

definition registry_404 :: world where
  "registry_404 = nominal\<lparr>request := (\<lambda>_. Some not_found)\<rparr>"

text \<open>No \<^verbatim>\<open>git\<close> on the host: every \<^verbatim>\<open>git\<close> process fails to spawn.\<close>

definition git_missing :: world where
  "git_missing = nominal\<lparr>execa_ok := (\<lambda>_ cmd args. cmd \<noteq> ''git'')\<rparr>"

text \<open>Neither \<^verbatim>\<open>git\<close> nor a working \<^verbatim>\<open>npm install\<close>.\<close>

definition install_and_git_fail :: world where
  "install_and_git_fail = nominal\<lparr>execa_ok := (\<lambda>_ cmd args. cmd \<noteq> ''git'' \<and> cmd \<noteq> ''npm'')\<rparr>"

text \<open>Only \<^verbatim>\<open>npm install\<close> fails.\<close>

definition install_fails :: world where
  "install_fails = nominal\<lparr>execa_ok := (\<lambda>_ cmd args. cmd \<noteq> ''npm'')\<rparr>"




text \<open>The current directory is named on the command line, and is not empty.\<close>

definition dot_argument :: world where
  "dot_argument = nominal\<lparr>argv2 := Some ''.'', text_dir := Answered ''elsewhere''\<rparr>"

definition occupied :: world where
  "occupied =
     nominal\<lparr>existsSync := (\<lambda>_. True), readdirSync := (\<lambda>_. Some [''README.md'']),
              confirm_force := Answered False\<rparr>"

definition no_argument :: world where
  "no_argument = nominal\<lparr>argv2 := None, text_dir := Answered []\<rparr>"



section \<open>Properties\<close>

subsection \<open>The Version Resolver\<close>

lemma resolvePackageVersion_cases:
  "resolvePackageVersion w packageName rangeArg tr =
     (let rng = (case rangeArg of None \<Rightarrow> ''latest'' | Some r \<Rightarrow> r);
          url = registry_url packageName rng in
      case Option.bind (Option.bind (request w url) body_json) caret_version of
        Some v \<Rightarrow> (tr @ [Request url], Inr v)
      | None \<Rightarrow> (tr @ [Request url, Print (resolve_warning packageName rng)], Inr rng))"
  by (simp add: resolvePackageVersion_def try_catch_def bind_def seq_def emit_def
      http_request_def of_option_def throw_def ret_def Let_def
      split: option.splits)

lemma caret_version_prefix: "caret_version pj = Some v \<Longrightarrow> \<exists>s. v = ''^'' @ s"
  by (auto simp: caret_version_def split: json.splits option.splits)

text \<open>
  C9. The resolver does not look at the shape of the response: whenever the body parses
  to a JSON object that has no \<^verbatim>\<open>version\<close> property, the success path returns the
  string \<^verbatim>\<open>^undefined\<close>, and no warning is printed.
\<close>

theorem resolver_no_shape_validation:
  assumes "request w (registry_url packageName ''latest'') = Some resp"
    and "body_json resp = Some (JObj props)"
    and "getProp props ''version'' = None"
  shows "resolvePackageVersion w packageName None tr =
           (tr @ [Request (registry_url packageName ''latest'')], Inr ''^undefined'')"
  using assms by (simp add: resolvePackageVersion_cases caret_version_def)

theorem resolver_no_shape_validation_witness:
  "resolvePackageVersion (nominal\<lparr>request := (\<lambda>_. Some \<lparr>statusCode = 200, body_json = Some (JObj [(''name'', JStr ''postcss'')])\<rparr>)\<rparr>)
     ''postcss'' None [] =
   ([Request ''https://cdn.jsdelivr.net/npm/postcss@latest/package.json''], Inr ''^undefined'')"
proof -
  let ?r = "\<lparr>statusCode = 200, body_json = Some (JObj [(''name'', JStr ''postcss'')])\<rparr>"
  let ?w = "nominal\<lparr>request := (\<lambda>_. Some ?r)\<rparr>"
  have h1: "request ?w (registry_url ''postcss'' ''latest'') = Some ?r" by simp
  have h2: "body_json ?r = Some (JObj [(''name'', JStr ''postcss'')])" by simp
  have h3: "getProp [(''name'', JStr ''postcss'')] ''version'' = None"
    by (simp add: getProp_def)
  show ?thesis
    using resolver_no_shape_validation [OF h1 h2 h3, of "[]"]
    by (simp add: registry_url_def)
qed

text \<open>
  C2, as stated, fails: a response with status 404 whose body is JSON is not treated as
  a failure. The resolver returns \<^verbatim>\<open>^undefined\<close> instead of the range and prints
  no warning.
\<close>

theorem resolver_status_counterexample:
  "statusCode not_found = 404 \<and>
   request registry_404 (registry_url ''tailwindcss'' ''latest'') = Some not_found \<and>
   resolvePackageVersion registry_404 ''tailwindcss'' None [] =
     ([Request ''https://cdn.jsdelivr.net/npm/tailwindcss@latest/package.json''],
      Inr ''^undefined'')"
  by (simp add: resolvePackageVersion_cases registry_404_def not_found_def nominal_def
      registry_url_def caret_version_def getProp_def)

text \<open>
  C2, amended. The resolver never throws and always returns a string. Either it returns
  a string that starts with a caret and prints nothing, or it prints exactly one warning
  and returns the range unchanged. The second happens whenever the request throws or the
  body is not JSON; the first whenever the body is an object whose version is a string,
  whatever the status code, and the string is then the caret followed by that version.
\<close>

theorem resolver_never_throws:
  fixes w packageName rangeArg tr
  defines "rng \<equiv> (case rangeArg of None \<Rightarrow> ''latest'' | Some r \<Rightarrow> r)"
  defines "url \<equiv> registry_url packageName rng"
  shows "((\<exists>s. resolvePackageVersion w packageName rangeArg tr =
                 (tr @ [Request url], Inr (''^'' @ s))) \<or>
          resolvePackageVersion w packageName rangeArg tr =
            (tr @ [Request url, Print (resolve_warning packageName rng)], Inr rng)) \<and>
         (request w url = None \<or> (\<exists>resp. request w url = Some resp \<and> body_json resp = None)
            \<longrightarrow>
          resolvePackageVersion w packageName rangeArg tr =
            (tr @ [Request url, Print (resolve_warning packageName rng)], Inr rng)) \<and>
         (\<forall>resp props v.
            request w url = Some resp \<and> body_json resp = Some (JObj props) \<and>
            getProp props ''version'' = Some (JStr v) \<longrightarrow>
            resolvePackageVersion w packageName rangeArg tr =
              (tr @ [Request url], Inr (''^'' @ v)))"
proof (intro conjI allI impI)
  show "(\<exists>s. resolvePackageVersion w packageName rangeArg tr =
               (tr @ [Request url], Inr (''^'' @ s))) \<or>
        resolvePackageVersion w packageName rangeArg tr =
          (tr @ [Request url, Print (resolve_warning packageName rng)], Inr rng)"
  proof (cases "Option.bind (Option.bind (request w url) body_json) caret_version")
    case None
    then show ?thesis
      by (simp add: resolvePackageVersion_cases rng_def url_def Let_def)
  next
    case (Some v)
    then obtain pj where "caret_version pj = Some v"
      by (auto simp: bind_eq_Some_conv)
    then obtain s where "v = ''^'' @ s"
      using caret_version_prefix by blast
    with Some show ?thesis
      by (simp add: resolvePackageVersion_cases rng_def url_def Let_def)
  qed
next
  assume "request w url = None \<or> (\<exists>resp. request w url = Some resp \<and> body_json resp = None)"
  then have "Option.bind (Option.bind (request w url) body_json) caret_version = None"
    by auto
  then show "resolvePackageVersion w packageName rangeArg tr =
      (tr @ [Request url, Print (resolve_warning packageName rng)], Inr rng)"
    by (simp add: resolvePackageVersion_cases rng_def url_def Let_def)
next
  fix resp props v
  assume "request w url = Some resp \<and> body_json resp = Some (JObj props) \<and>
          getProp props ''version'' = Some (JStr v)"
  then show "resolvePackageVersion w packageName rangeArg tr =
      (tr @ [Request url], Inr (''^'' @ v))"
    by (simp add: resolvePackageVersion_cases rng_def url_def Let_def caret_version_def)
qed

theorem resolver_never_throws_witness:
  "resolvePackageVersion offline ''postcss'' None [] =
     ([Request ''https://cdn.jsdelivr.net/npm/postcss@latest/package.json'',
       Print (cross @ '' Failed to resolve package version for postcss, using latest instead'')],
      Inr ''latest'') \<and>
   resolvePackageVersion nominal ''postcss'' (Some ''8'') [] =
     ([Request ''https://cdn.jsdelivr.net/npm/postcss@8/package.json''], Inr ''^1.2.3'')"
proof -
  have off: "request offline (registry_url ''postcss'' ''latest'') = None"
    by (simp add: offline_def)
  have on: "request nominal (registry_url ''postcss'' ''8'') = Some published \<and>
            body_json published = Some (JObj [(''version'', JStr ''1.2.3'')]) \<and>
            getProp [(''version'', JStr ''1.2.3'')] ''version'' = Some (JStr ''1.2.3'')"
    by (simp add: nominal_def published_def getProp_def)
  show ?thesis
    using resolver_never_throws [of offline "''postcss''" None "[]"] off
      resolver_never_throws [of nominal "''postcss''" "Some ''8''" "[]"] on
    by (simp add: registry_url_def resolve_warning_def)
qed

subsection \<open>The Dependency Merger\<close>

lemma map_of_merge_left:
  "map_of (map (\<lambda>(k, v). case map_of c k of None \<Rightarrow> (k, v) | Some u \<Rightarrow> (k, f v u)) b) k =
     map_option (\<lambda>v. case map_of c k of None \<Rightarrow> v | Some u \<Rightarrow> f v u) (map_of b k)"
  by (induction b) (auto split: option.splits)

lemma map_of_filter_absent:
  "map_of (filter (\<lambda>(k, u). map_of b k = None) c) k =
     (if map_of b k = None then map_of c k else None)"
  by (induction c) auto

lemma getProp_mergeObjects:
  "mergeObjects (JObj base) (JObj overlay) = JObj merged \<Longrightarrow>
   getProp merged k =
     (case (getProp base k, getProp overlay k) of
        (None, x) \<Rightarrow> x
      | (Some v, None) \<Rightarrow> Some v
      | (Some v, Some u) \<Rightarrow> Some (mergeObjects v u))"
  by (auto simp: getProp_def map_of_merge_left map_of_filter_absent map_add_def
      split: option.splits)

lemma mergeObjects_overlay_wins:
  "(\<forall>x y. v = JObj x \<longrightarrow> u \<noteq> JObj y) \<Longrightarrow> mergeObjects v u = u"
  by (cases v; cases u) auto

text \<open>
  C6. Merging the base manifest with the overlay always gives a document, and for every
  key: a key only the base defines keeps the base's value, a key only the overlay defines
  takes the overlay's value, a key neither defines stays undefined (so documents with no
  common key merge to their union); where both define a mapping the two are merged
  recursively; where both define a scalar or an array the overlay's value wins.
\<close>

theorem mergeObjects_contract:
  "\<exists>merged.
     mergeObjects (JObj base) (JObj overlay) = JObj merged \<and>
     (getProp overlay k = None \<longrightarrow> getProp merged k = getProp base k) \<and>
     (getProp base k = None \<longrightarrow> getProp merged k = getProp overlay k) \<and>
     (\<forall>x y. getProp base k = Some (JObj x) \<and> getProp overlay k = Some (JObj y) \<longrightarrow>
        getProp merged k = Some (mergeObjects (JObj x) (JObj y))) \<and>
     (\<forall>v u. getProp base k = Some v \<and> getProp overlay k = Some u \<and>
        (\<forall>x. v \<noteq> JObj x) \<and> (\<forall>y. u \<noteq> JObj y) \<longrightarrow>
        getProp merged k = Some u)"
proof -
  obtain merged where m: "mergeObjects (JObj base) (JObj overlay) = JObj merged"
    by simp
  have "getProp overlay k = None \<longrightarrow> getProp merged k = getProp base k"
    by (simp add: getProp_mergeObjects [OF m] split: option.splits)
  moreover have "getProp base k = None \<longrightarrow> getProp merged k = getProp overlay k"
    by (simp add: getProp_mergeObjects [OF m])
  moreover have "\<forall>x y. getProp base k = Some (JObj x) \<and> getProp overlay k = Some (JObj y) \<longrightarrow>
        getProp merged k = Some (mergeObjects (JObj x) (JObj y))"
    by (simp add: getProp_mergeObjects [OF m])
  moreover have "\<forall>v u. getProp base k = Some v \<and> getProp overlay k = Some u \<and>
        (\<forall>x. v \<noteq> JObj x) \<and> (\<forall>y. u \<noteq> JObj y) \<longrightarrow> getProp merged k = Some u"
    by (auto simp: getProp_mergeObjects [OF m] mergeObjects_overlay_wins)
  ultimately show ?thesis
    using m by - (rule exI [of _ merged], intro conjI; assumption)
qed

theorem mergeObjects_contract_witness:
  "mergeObjects generated_manifest (newPackageJson [(''postcss'', ''^8.4.0'')]) =
     JObj [(''name'', JStr ''my-app''),
           (''devDependencies'', JObj [(''svelte'', JStr ''^4.0.0''), (''postcss'', JStr ''^8.4.0'')]),
           (''scripts'', JObj [])] \<and>
   mergeObjects (JObj [(''version'', JStr ''0.0.1''), (''files'', JArr [JStr ''dist''])])
                (JObj [(''version'', JStr ''1.0.0''), (''files'', JArr [])]) =
     JObj [(''version'', JStr ''1.0.0''), (''files'', JArr [])]"
proof -
  let ?b = "[(''name'', JStr ''my-app''), (''devDependencies'', JObj [(''svelte'', JStr ''^4.0.0'')])]"
  let ?o = "[(''devDependencies'', JObj [(''postcss'', JStr ''^8.4.0'')]), (''scripts'', JObj [])]"
  let ?b2 = "[(''version'', JStr ''0.0.1''), (''files'', JArr [JStr ''dist''])]"
  let ?o2 = "[(''version'', JStr ''1.0.0''), (''files'', JArr [])]"
  have "getProp ?o ''name'' = None" "getProp ?b ''scripts'' = None"
    "getProp ?b ''devDependencies'' = Some (JObj [(''svelte'', JStr ''^4.0.0'')]) \<and>
     getProp ?o ''devDependencies'' = Some (JObj [(''postcss'', JStr ''^8.4.0'')])"
    "getProp ?b2 ''version'' = Some (JStr ''0.0.1'') \<and> getProp ?o2 ''version'' = Some (JStr ''1.0.0'')"
    by (simp_all add: getProp_def)
  then show ?thesis
    using mergeObjects_contract [of ?b ?o "''name''"]
      mergeObjects_contract [of ?b ?o "''scripts''"]
      mergeObjects_contract [of ?b ?o "''devDependencies''"]
      mergeObjects_contract [of ?b2 ?o2 "''version''"]
    by (simp add: generated_manifest_def newPackageJson_def)
qed

subsection \<open>What an action appends to the trace\<close>

lemma emitsI: "(\<And>tr. \<exists>es. fst (m tr) = tr @ es \<and> list_all P es) \<Longrightarrow> emits P m"
  by (simp add: emits_def)

lemma emitsD: "emits P m \<Longrightarrow> \<exists>es. fst (m tr) = tr @ es \<and> list_all P es"
  by (simp add: emits_def)

lemma emits_ret: "emits P (ret a)"
  by (simp add: emits_def ret_def)

lemma emits_exit_process: "emits P (exit_process n)"
  by (simp add: emits_def exit_process_def)

lemma emits_throw: "emits P throw"
  by (simp add: emits_def throw_def)

lemma emits_emit: "P e \<Longrightarrow> emits P (emit e)"
  by (simp add: emits_def emit_def)

lemma emits_emit_all: "list_all P es \<Longrightarrow> emits P (emit_all es)"
  by (simp add: emits_def emit_all_def)

lemma emits_fallible: "P e \<Longrightarrow> emits P (fallible e ok)"
  by (simp add: emits_def fallible_def)

lemma emits_execa: "P (Execa cmd args cwd) \<Longrightarrow> emits P (execa w cmd args cwd)"
  by (simp add: emits_def execa_def fallible_def)

lemma emits_copy: "P (Copy template cwd) \<Longrightarrow> emits P (copy w template cwd)"
  by (simp add: emits_def copy_def fallible_def)

lemma emits_of_option: "emits P (of_option x)"
  by (cases x) (simp_all add: of_option_def emits_throw emits_ret)

lemma emits_bind:
  assumes "emits P m" and "\<And>a. emits P (f a)"
  shows "emits P (bind m f)"
proof (rule emitsI)
  fix tr
  obtain es where es: "fst (m tr) = tr @ es" "list_all P es"
    using emitsD [OF assms(1)] by blast
  show "\<exists>es. fst (bind m f tr) = tr @ es \<and> list_all P es"
  proof (cases "snd (m tr)")
    case (Inl s)
    then have "bind m f tr = (tr @ es, Inl s)"
      using es(1) by (cases "m tr") (simp add: bind_def)
    then show ?thesis using es(2) by simp
  next
    case (Inr a)
    then have b: "bind m f tr = f a (tr @ es)"
      using es(1) by (cases "m tr") (simp add: bind_def)
    obtain es' where "fst (f a (tr @ es)) = (tr @ es) @ es'" "list_all P es'"
      using emitsD [OF assms(2)] by blast
    then show ?thesis using es(2) b by simp
  qed
qed

lemma emits_seq: "emits P m \<Longrightarrow> emits P k \<Longrightarrow> emits P (seq m k)"
  by (simp add: seq_def emits_bind)

lemma emits_try_catch:
  assumes "emits P m" and "emits P h"
  shows "emits P (try_catch m h)"
proof (rule emitsI)
  fix tr
  obtain es where es: "fst (m tr) = tr @ es" "list_all P es"
    using emitsD [OF assms(1)] by blast
  obtain es' where es': "fst (h (tr @ es)) = (tr @ es) @ es'" "list_all P es'"
    using emitsD [OF assms(2)] by blast
  show "\<exists>es. fst (try_catch m h tr) = tr @ es \<and> list_all P es"
  proof (cases "snd (m tr) = Inl Thrown")
    case True
    then have "try_catch m h tr = h (tr @ es)"
      using es(1) by (cases "m tr") (simp add: try_catch_def)
    then show ?thesis using es(2) es' by simp
  next
    case False
    then have "try_catch m h tr = m tr"
      by (cases "m tr") (simp add: try_catch_def split: sum.splits stop.splits)
    then show ?thesis using es by simp
  qed
qed

lemma emits_ask: "P e \<Longrightarrow> emits P (ask e a)"
  by (simp add: ask_def emits_seq emits_emit emits_ret)

lemma emits_group_prompt: "P e \<Longrightarrow> emits P (group_prompt e a)"
  by (auto simp: group_prompt_def emits_ask emits_exit_process emits_ret
      intro!: emits_bind split: answer.splits)

lemma emits_mono: "emits P m \<Longrightarrow> (\<And>e. P e \<Longrightarrow> Q e) \<Longrightarrow> emits Q m"
  unfolding emits_def by (metis list_all_iff)

lemmas emits_intros =
  emits_ret emits_exit_process emits_throw emits_emit emits_emit_all emits_fallible
  emits_execa emits_copy emits_of_option emits_bind emits_seq emits_try_catch emits_ask
  emits_group_prompt

subsection \<open>Resolving the dev-dependencies\<close>


lemma set_setProp_mem: "x \<in> set (setProp k v r) \<Longrightarrow> x = (k, v) \<or> x \<in> set r"
  by (induction r) (auto split: if_splits)

lemma set_setProp: "set (setProp k v r) \<subseteq> insert (k, v) (set r)"
  using set_setProp_mem by fastforce







subsection \<open>The events of each step\<close>

lemma emits_resolvePackageVersion:
  assumes "\<And>u. P (Request u)" and "\<And>l. P (Print l)"
  shows "emits P (resolvePackageVersion w pkg rangeArg)"
  unfolding resolvePackageVersion_def Let_def http_request_def
  by (intro emits_intros assms)

lemma emits_resolvePackages:
  assumes "\<And>u. P (Request u)" and "\<And>l. P (Print l)"
  shows "emits P (resolvePackages w pkgs r)"
proof (induction pkgs arbitrary: r)
  case Nil
  show ?case by (simp add: emits_ret)
next
  case (Cons pkg pkgs)
  show ?case
    by (simp, intro emits_bind emits_resolvePackageVersion assms Cons.IH)
qed

lemma emits_resolveEntries:
  assumes "\<And>u. P (Request u)" and "\<And>l. P (Print l)"
  shows "emits P (resolveEntries w opts deps r)"
proof (induction deps arbitrary: r)
  case Nil
  show ?case by (simp add: emits_ret)
next
  case (Cons d deps)
  obtain name packages where d: "d = (name, packages)"
    by (cases d)
  show ?case
    unfolding d
    by (simp, intro conjI impI emits_bind emits_resolvePackages assms Cons.IH)
qed

lemma emits_resolveDeps:
  assumes "\<And>u. P (Request u)" and "\<And>l. P (Print l)"
  shows "emits P (resolveDeps w opts deps)"
  unfolding resolveDeps_def by (intro emits_resolveEntries assms)

lemma emits_collect_options:
  assumes "\<And>m. P (AskSelect m)" and "\<And>m. P (AskMultiselect m)"
    and "P (AskConfirm ''Initialize a git repository?'')"
    and "\<And>pm. P (AskConfirm (''Install dependencies using '' @ pm @ ''?''))"
  shows "emits P (collect_options w)"
  unfolding collect_options_def
  by (intro emits_intros assms)

lemma emits_generate:
  assumes "\<And>c n t p e pw v. P (CreateSvelteKitApp c n t p e pw v)"
  shows "emits P (generate w cwd opts)"
  unfolding generate_def by (intro emits_intros assms)

lemma emits_rewrite_manifest:
  assumes "\<And>c. P (ReadManifest c)" and "\<And>c m. P (WriteManifest c m)"
    and "\<And>m. P (SpinnerStart m)" and "\<And>m. P (SpinnerStop m)"
    and "\<And>u. P (Request u)" and "\<And>l. P (Print l)"
  shows "emits P (rewrite_manifest w cwd opts)"
  unfolding rewrite_manifest_def Let_def
  by (intro emits_intros emits_resolveDeps assms)

lemma emits_copy_templates:
  assumes "P (Copy ''typescript'' cwd)" and "P (Copy ''javascript'' cwd)"
  shows "emits P (copy_templates w cwd opts)"
  unfolding copy_templates_def by (simp add: emits_copy assms)

lemma emits_install_step:
  assumes "\<And>m. P (SpinnerStart m)" and "\<And>m. P (SpinnerStop m)" and "\<And>m t. P (Note m t)"
    and "P (Execa (packageManager opts) [''install''] cwd)"
  shows "emits P (install_step w cwd opts)"
  unfolding install_step_def Let_def
  by (simp add: emits_ret, intro impI emits_intros assms)

lemma emits_git_step:
  assumes "\<And>args. P (Execa ''git'' args cwd)"
  shows "emits P (git_step w cwd opts)"
  unfolding git_step_def
  by (simp add: emits_ret, intro impI emits_intros assms)

lemma emits_changesets_step:
  assumes "\<And>m. P (SpinnerStart m)" and "\<And>m. P (SpinnerStop m)" and "\<And>m t. P (Note m t)"
    and "\<And>args. P (Execa ''git'' args cwd)" and "\<And>args. P (Execa ''npx'' args cwd)"
    and "P (Copy ''changesets'' cwd)"
  shows "emits P (changesets_step w cwd opts)"
  unfolding changesets_step_def
  by (simp add: emits_ret, intro impI emits_intros assms)

lemma emits_tailwind_step:
  assumes "\<And>m. P (SpinnerStart m)" and "\<And>m. P (SpinnerStop m)" and "\<And>m t. P (Note m t)"
    and "P (Execa ''git'' [''add'', ''-A''] cwd)"
    and "P (Execa ''git'' [''commit'', ''-m'', ''feat: added tailwindcss''] cwd)"
    and "P (Execa ''npx'' [''tailwindcss'', ''init'', ''-p''] cwd)"
    and "P (Copy ''tailwind'' cwd)"
  shows "emits P (tailwind_step w cwd opts)"
  unfolding tailwind_step_def
  by (simp add: emits_ret, intro impI emits_intros assms)

lemma emits_summary:
  assumes "\<And>m. P (Outro m)" and "\<And>l. P (Print l)"
  shows "emits P (summary w cwd opts)"
  unfolding summary_def
  by (intro emits_intros assms) (auto simp: list_all_iff assms)

lemma emits_after_templates:
  assumes "\<And>m. P (SpinnerStart m)" and "\<And>m. P (SpinnerStop m)" and "\<And>m t. P (Note m t)"
    and "P (Execa (packageManager opts) [''install''] cwd)"
    and "\<And>args. P (Execa ''git'' args cwd)" and "\<And>args. P (Execa ''npx'' args cwd)"
    and "P (Copy ''changesets'' cwd)" and "P (Copy ''tailwind'' cwd)"
    and "\<And>m. P (Outro m)" and "\<And>l. P (Print l)"
  shows "emits P (after_templates w cwd opts)"
  unfolding after_templates_def
  by (intro emits_intros emits_install_step emits_git_step emits_changesets_step
      emits_tailwind_step emits_summary assms)

lemma emits_finish:
  assumes "\<And>m. P (SpinnerStart m)" and "\<And>m. P (SpinnerStop m)" and "\<And>m t. P (Note m t)"
    and "\<And>cmd args. P (Execa cmd args cwd)" and "\<And>t. P (Copy t cwd)"
    and "\<And>m. P (Outro m)" and "\<And>l. P (Print l)"
  shows "emits P (finish w cwd opts)"
  unfolding finish_def
  by (intro emits_seq emits_copy_templates emits_after_templates assms)

lemma emits_scaffold:
  assumes "\<And>m. P (AskSelect m)" and "\<And>m. P (AskMultiselect m)"
    and "P (AskConfirm ''Initialize a git repository?'')"
    and "\<And>pm. P (AskConfirm (''Install dependencies using '' @ pm @ ''?''))"
    and "\<And>c n t p e pw v. P (CreateSvelteKitApp c n t p e pw v)"
    and "\<And>c. P (ReadManifest c)" and "\<And>c m. P (WriteManifest c m)"
    and "\<And>m. P (SpinnerStart m)" and "\<And>m. P (SpinnerStop m)"
    and "\<And>u. P (Request u)" and "\<And>l. P (Print l)"
  shows "emits P (bind (collect_options w) (\<lambda>opts.
           seq (generate w cwd opts) (seq (rewrite_manifest w cwd opts) (ret (cwd, opts)))))"
  by (intro emits_bind emits_seq emits_ret emits_collect_options emits_generate
      emits_rewrite_manifest assms)

lemma emits_resolve_cwd:
  assumes "\<And>m. P (AskText m)"
  shows "emits P (resolve_cwd w)"
  unfolding resolve_cwd_def Let_def
  by (auto intro!: emits_intros assms split: answer.splits)

lemma emits_confirm_gate:
  assumes "P (AskConfirm ''Directory not empty. Continue?'')"
  shows "emits P (confirm_gate w cwd)"
  unfolding confirm_gate_def
  by (auto intro!: emits_intros assms)

lemma emits_prepare:
  assumes "\<And>m. P (Intro m)" and "\<And>m. P (AskText m)" and "\<And>m. P (AskConfirm m)"
    and "\<And>m. P (AskSelect m)" and "\<And>m. P (AskMultiselect m)"
    and "\<And>c n t p e pw v. P (CreateSvelteKitApp c n t p e pw v)"
    and "\<And>c. P (ReadManifest c)" and "\<And>c m. P (WriteManifest c m)"
    and "\<And>m. P (SpinnerStart m)" and "\<And>m. P (SpinnerStop m)"
    and "\<And>u. P (Request u)" and "\<And>l. P (Print l)"
  shows "emits P (prepare w)"
  unfolding prepare_def
  by (intro emits_bind emits_seq emits_emit emits_resolve_cwd emits_confirm_gate emits_scaffold
      assms)

subsection \<open>Composing the run\<close>

lemma bind_assoc: "bind (bind m f) g = bind m (\<lambda>a. bind (f a) g)"
  by (rule ext) (simp add: bind_def split: prod.splits sum.splits)

lemma bind_ret: "bind (ret a) f = f a"
  by (rule ext) (simp add: bind_def ret_def)

lemma seq_bind: "bind (seq m k) g = seq m (bind k g)"
  by (simp add: seq_def bind_assoc)

lemma bind_Inr: "m tr = (tr', Inr a) \<Longrightarrow> bind m f tr = f a tr'"
  by (simp add: bind_def)

lemma bind_Inl: "m tr = (tr', Inl s) \<Longrightarrow> bind m f tr = (tr', Inl s)"
  by (simp add: bind_def)

lemma seq_Inr: "m tr = (tr', Inr ()) \<Longrightarrow> seq m k tr = k tr'"
  by (simp add: seq_def bind_def)

lemma seq_Inl: "m tr = (tr', Inl s) \<Longrightarrow> seq m k tr = (tr', Inl s)"
  by (simp add: seq_def bind_def)

lemma create_reached:
  "prepare w [] = (tr0, Inr (cwd, opts)) \<Longrightarrow> create w = finish w cwd opts tr0"
  by (simp add: create_def bind_def)

lemma create_stopped: "prepare w [] = (tr0, Inl s) \<Longrightarrow> create w = (tr0, Inl s)"
  by (simp add: create_def bind_def)

lemma emits_trace:
  assumes "emits P m" and "m tr = (tr', r)"
  shows "\<exists>es. tr' = tr @ es \<and> list_all P es"
  using emitsD [OF assms(1), of tr] assms(2) by simp

subsection \<open>The target directory\<close>

lemma resolve_cwd_argument:
  "argv2 w = Some a \<Longrightarrow> a \<noteq> [] \<Longrightarrow> a \<noteq> ''.'' \<Longrightarrow> resolve_cwd w = ret a"
  by (simp add: resolve_cwd_def)

lemma resolve_cwd_prompt:
  assumes "argv2 w = None \<or> argv2 w = Some [] \<or> argv2 w = Some ''.''"
  shows "resolve_cwd w tr =
     (tr @ [AskText ''Where should we create your project?''],
      case text_dir w of
        Cancelled \<Rightarrow> Inl (Exit 1)
      | Answered d \<Rightarrow> Inr (if d \<noteq> [] then d else ''.''))"
  using assms
  by (auto simp: resolve_cwd_def ask_def seq_def bind_def emit_def ret_def exit_process_def
      split: answer.splits)

text \<open>
  C10, as stated, fails: with the argument \<^verbatim>\<open>.\<close> on the command line the directory
  prompt is shown all the same, and its answer, not the argument, becomes the target.
\<close>

theorem dot_argument_counterexample:
  "argv2 dot_argument = Some ''.'' \<and>
   resolve_cwd dot_argument [] =
     ([AskText ''Where should we create your project?''], Inr ''elsewhere'')"
  by (simp add: dot_argument_def nominal_def resolve_cwd_def ask_def seq_def bind_def emit_def
      ret_def)

text \<open>
  C10, amended. An argument that is neither empty nor \<^verbatim>\<open>.\<close> becomes the target, and
  the whole run shows no directory prompt. Without an argument, or with the argument
  \<^verbatim>\<open>.\<close> or the empty string, the prompt is shown: a cancel ends the run there with
  exit code 1, a non-empty answer becomes the target, an empty answer leaves the target
  \<^verbatim>\<open>.\<close>.
\<close>

theorem resolve_cwd_cases:
  "(\<forall>a. argv2 w = Some a \<and> a \<noteq> [] \<and> a \<noteq> ''.'' \<longrightarrow>
      resolve_cwd w tr = (tr, Inr a) \<and> list_all (\<lambda>e. \<not> is_ask_text e) (fst (create w))) \<and>
   (argv2 w = None \<or> argv2 w = Some [] \<or> argv2 w = Some ''.'' \<longrightarrow>
      (text_dir w = Cancelled \<longrightarrow>
         resolve_cwd w tr = (tr @ [AskText ''Where should we create your project?''], Inl (Exit 1)) \<and>
         create w =
           ([Intro ''Welcome!'', AskText ''Where should we create your project?''], Inl (Exit 1))) \<and>
      (\<forall>d. text_dir w = Answered d \<and> d \<noteq> [] \<longrightarrow>
         resolve_cwd w tr = (tr @ [AskText ''Where should we create your project?''], Inr d)) \<and>
      (text_dir w = Answered [] \<longrightarrow>
         resolve_cwd w tr = (tr @ [AskText ''Where should we create your project?''], Inr ''.'')))"
proof (intro conjI allI impI)
  fix a
  assume a: "argv2 w = Some a \<and> a \<noteq> [] \<and> a \<noteq> ''.''"
  then have r: "resolve_cwd w = ret a"
    by (simp add: resolve_cwd_argument)
  then show "resolve_cwd w tr = (tr, Inr a)"
    by (simp add: ret_def)
  let ?P = "\<lambda>e. \<not> is_ask_text e"
  have "emits ?P (prepare w)"
    unfolding prepare_def r bind_ret
    by (intro emits_seq emits_emit emits_confirm_gate emits_scaffold) simp_all
  moreover have "emits ?P (finish w c opts)" for c opts
    by (intro emits_finish) simp_all
  ultimately have "emits ?P (bind (prepare w) (\<lambda>(c, opts). finish w c opts))"
    by (intro emits_bind) (simp_all split: prod.splits)
  from emitsD [OF this, of "[]"] show "list_all ?P (fst (create w))"
    by (auto simp: create_def)
next
  assume p: "argv2 w = None \<or> argv2 w = Some [] \<or> argv2 w = Some ''.''"
    and c: "text_dir w = Cancelled"
  show "resolve_cwd w tr = (tr @ [AskText ''Where should we create your project?''], Inl (Exit 1))"
    by (simp add: resolve_cwd_prompt [OF p] c)
  have "prepare w [] =
      ([Intro ''Welcome!'', AskText ''Where should we create your project?''], Inl (Exit 1))"
    by (simp add: prepare_def seq_def bind_def emit_def resolve_cwd_prompt [OF p] c)
  then show "create w =
      ([Intro ''Welcome!'', AskText ''Where should we create your project?''], Inl (Exit 1))"
    by (rule create_stopped)
next
  fix d
  assume p: "argv2 w = None \<or> argv2 w = Some [] \<or> argv2 w = Some ''.''"
    and "text_dir w = Answered d \<and> d \<noteq> []"
  then show "resolve_cwd w tr = (tr @ [AskText ''Where should we create your project?''], Inr d)"
    by (simp add: resolve_cwd_prompt [OF p])
next
  assume p: "argv2 w = None \<or> argv2 w = Some [] \<or> argv2 w = Some ''.''"
    and "text_dir w = Answered []"
  then show "resolve_cwd w tr = (tr @ [AskText ''Where should we create your project?''], Inr ''.'')"
    by (simp add: resolve_cwd_prompt [OF p])
qed

theorem resolve_cwd_cases_witness:
  "resolve_cwd nominal [] = ([], Inr ''my-app'') \<and>
   resolve_cwd no_argument [] = ([AskText ''Where should we create your project?''], Inr ''.'') \<and>
   resolve_cwd (no_argument\<lparr>text_dir := Answered ''lib''\<rparr>) [] =
     ([AskText ''Where should we create your project?''], Inr ''lib'') \<and>
   create (no_argument\<lparr>text_dir := Cancelled\<rparr>) =
     ([Intro ''Welcome!'', AskText ''Where should we create your project?''], Inl (Exit 1))"
proof -
  have 1: "argv2 nominal = Some ''my-app'' \<and> ''my-app'' \<noteq> [] \<and> ''my-app'' \<noteq> ''.''"
    by (simp add: nominal_def)
  have 2: "argv2 no_argument = None" "text_dir no_argument = Answered []"
    by (simp_all add: no_argument_def nominal_def)
  have 3: "argv2 (no_argument\<lparr>text_dir := Answered ''lib''\<rparr>) = None"
    "text_dir (no_argument\<lparr>text_dir := Answered ''lib''\<rparr>) = Answered ''lib'' \<and> ''lib'' \<noteq> []"
    by (simp_all add: no_argument_def nominal_def)
  have 4: "argv2 (no_argument\<lparr>text_dir := Cancelled\<rparr>) = None"
    "text_dir (no_argument\<lparr>text_dir := Cancelled\<rparr>) = Cancelled"
    by (simp_all add: no_argument_def nominal_def)
  show ?thesis
    using resolve_cwd_cases [of nominal "[]"] 1
      resolve_cwd_cases [of no_argument "[]"] 2
      resolve_cwd_cases [of "no_argument\<lparr>text_dir := Answered ''lib''\<rparr>" "[]"] 3
      resolve_cwd_cases [of "no_argument\<lparr>text_dir := Cancelled\<rparr>" "[]"] 4
    by simp
qed

subsection \<open>The confirmation gate\<close>

lemma resolve_cwd_result:
  assumes "snd (resolve_cwd w []) = Inr cwd"
  shows "\<exists>pre. resolve_cwd w tr = (tr @ pre, Inr cwd) \<and> list_all is_ask_text pre"
  using assms
  by (auto simp: resolve_cwd_def Let_def ask_def seq_def bind_def emit_def ret_def
      exit_process_def split: if_splits answer.splits option.splits)

lemma confirm_gate_cases:
  "confirm_gate w cwd tr =
     (if existsSync w cwd then
        (case readdirSync w cwd of
           None \<Rightarrow> (tr, Inl Thrown)
         | Some [] \<Rightarrow> (tr, Inr ())
         | Some (e # es) \<Rightarrow>
             (tr @ [AskConfirm ''Directory not empty. Continue?''],
              if confirm_force w = Answered True then Inr () else Inl (Exit 1)))
      else (tr, Inr ()))"
  by (simp add: confirm_gate_def of_option_def ask_def seq_def bind_def emit_def ret_def
      exit_process_def throw_def split: option.splits list.splits)

lemma seq_emit: "seq (emit e) k tr = k (tr @ [e])"
  by (simp add: seq_def bind_def emit_def)

lemma ask_text_not_writes: "is_ask_text e \<Longrightarrow> \<not> writes_files e"
  by (cases e) simp_all

lemma create_after_cwd:
  assumes "resolve_cwd w [Intro ''Welcome!''] = (tr1, Inr cwd)"
  shows "create w =
     seq (confirm_gate w cwd)
       (bind (bind (collect_options w) (\<lambda>opts.
                seq (generate w cwd opts) (seq (rewrite_manifest w cwd opts) (ret (cwd, opts)))))
             (\<lambda>(c, opts). finish w c opts)) tr1"
proof -
  have "create w =
      seq (emit (Intro ''Welcome!''))
        (bind (resolve_cwd w) (\<lambda>cwd.
           seq (confirm_gate w cwd)
             (bind (bind (collect_options w) (\<lambda>opts.
                seq (generate w cwd opts) (seq (rewrite_manifest w cwd opts) (ret (cwd, opts)))))
                (\<lambda>(c, opts). finish w c opts)))) []"
    by (simp add: create_def prepare_def seq_bind bind_assoc)
  also have "\<dots> =
      seq (confirm_gate w cwd)
        (bind (bind (collect_options w) (\<lambda>opts.
           seq (generate w cwd opts) (seq (rewrite_manifest w cwd opts) (ret (cwd, opts)))))
           (\<lambda>(c, opts). finish w c opts)) tr1"
    by (simp only: seq_emit append_Nil bind_Inr [where m = "resolve_cwd w", OF assms])
  finally show ?thesis .
qed

lemma emits_after_gate:
  assumes "\<And>m. P (AskSelect m)" and "\<And>m. P (AskMultiselect m)"
    and "P (AskConfirm ''Initialize a git repository?'')"
    and "\<And>pm. P (AskConfirm (''Install dependencies using '' @ pm @ ''?''))"
    and "\<And>c n t p e pw v. P (CreateSvelteKitApp c n t p e pw v)"
    and "\<And>c. P (ReadManifest c)" and "\<And>c m. P (WriteManifest c m)"
    and "\<And>m. P (SpinnerStart m)" and "\<And>m. P (SpinnerStop m)"
    and "\<And>u. P (Request u)" and "\<And>l. P (Print l)"
    and "\<And>m t. P (Note m t)" and "\<And>cmd args c. P (Execa cmd args c)"
    and "\<And>t c. P (Copy t c)" and "\<And>m. P (Outro m)"
  shows "emits P (bind (bind (collect_options w) (\<lambda>opts.
                seq (generate w cwd opts) (seq (rewrite_manifest w cwd opts) (ret (cwd, opts)))))
             (\<lambda>(c, opts). finish w c opts))"
proof (rule emits_bind)
  show "emits P (bind (collect_options w) (\<lambda>opts.
          seq (generate w cwd opts) (seq (rewrite_manifest w cwd opts) (ret (cwd, opts)))))"
    by (intro emits_scaffold assms)
next
  fix a :: "string \<times> options"
  show "emits P (case a of (c, opts) \<Rightarrow> finish w c opts)"
    by (cases a) (simp, intro emits_finish assms)
qed

text \<open>
  C4. Once the target directory is known: if it does not exist or is empty, the run never
  shows the not-empty confirmation; if it exists and has an entry, the run shows it, and
  any answer but yes (no, or a cancel) ends the run with exit code 1 before anything has
  been generated, written, copied or executed.
\<close>

theorem confirmation_gate:
  assumes "snd (resolve_cwd w []) = Inr cwd"
  shows "(\<not> existsSync w cwd \<or> readdirSync w cwd = Some [] \<longrightarrow>
            AskConfirm ''Directory not empty. Continue?'' \<notin> set (fst (create w))) \<and>
         (\<forall>e es. existsSync w cwd \<and> readdirSync w cwd = Some (e # es) \<longrightarrow>
            AskConfirm ''Directory not empty. Continue?'' \<in> set (fst (create w)) \<and>
            (confirm_force w \<noteq> Answered True \<longrightarrow>
               snd (create w) = Inl (Exit 1) \<and>
               list_all (\<lambda>e. \<not> writes_files e) (fst (create w))))"
proof -
  let ?gate = "AskConfirm ''Directory not empty. Continue?''"
  let ?rest = "bind (bind (collect_options w) (\<lambda>opts.
                seq (generate w cwd opts) (seq (rewrite_manifest w cwd opts) (ret (cwd, opts)))))
             (\<lambda>(c, opts). finish w c opts)"
  obtain pre where pre: "resolve_cwd w [Intro ''Welcome!''] = ([Intro ''Welcome!''] @ pre, Inr cwd)"
    "list_all is_ask_text pre"
    using resolve_cwd_result [OF assms, of "[Intro ''Welcome!'']"] by blast
  let ?tr1 = "[Intro ''Welcome!''] @ pre"
  have c: "create w = seq (confirm_gate w cwd) ?rest ?tr1"
    by (rule create_after_cwd [OF pre(1)])
  have tr1_gate: "?gate \<notin> set ?tr1"
    using pre(2) by (auto simp: list_all_iff)
  have tr1_writes: "list_all (\<lambda>e. \<not> writes_files e) ?tr1"
    using pre(2) by (auto simp: list_all_iff dest: ask_text_not_writes)
  have no_gate: "emits (\<lambda>e. e \<noteq> ?gate) ?rest"
    by (intro emits_after_gate) simp_all
  show ?thesis
  proof (intro conjI allI impI)
    assume "\<not> existsSync w cwd \<or> readdirSync w cwd = Some []"
    then have "confirm_gate w cwd ?tr1 = (?tr1, Inr ())"
      by (auto simp: confirm_gate_cases)
    then have "create w = ?rest ?tr1"
      unfolding c by (rule seq_Inr)
    moreover obtain es where "fst (?rest ?tr1) = ?tr1 @ es" "list_all (\<lambda>e. e \<noteq> ?gate) es"
      using emitsD [OF no_gate, of ?tr1] by blast
    ultimately show "?gate \<notin> set (fst (create w))"
      using tr1_gate by (auto simp: list_all_iff)
  next
    fix e es
    assume ne: "existsSync w cwd \<and> readdirSync w cwd = Some (e # es)"
    show "?gate \<in> set (fst (create w))"
    proof (cases "confirm_force w = Answered True")
      case True
      then have "confirm_gate w cwd ?tr1 = (?tr1 @ [?gate], Inr ())"
        using ne by (simp add: confirm_gate_cases)
      then have "create w = ?rest (?tr1 @ [?gate])"
        unfolding c by (rule seq_Inr)
      moreover obtain es' where "fst (?rest (?tr1 @ [?gate])) = (?tr1 @ [?gate]) @ es'"
        using emitsD [OF no_gate, of "?tr1 @ [?gate]"] by blast
      ultimately show ?thesis by simp
    next
      case False
      then have "confirm_gate w cwd ?tr1 = (?tr1 @ [?gate], Inl (Exit 1))"
        using ne by (simp add: confirm_gate_cases)
      then have "create w = (?tr1 @ [?gate], Inl (Exit 1))"
        unfolding c by (rule seq_Inl)
      then show ?thesis by simp
    qed
  next
    fix e es
    assume ne: "existsSync w cwd \<and> readdirSync w cwd = Some (e # es)"
      and "confirm_force w \<noteq> Answered True"
    then have "confirm_gate w cwd ?tr1 = (?tr1 @ [?gate], Inl (Exit 1))"
      by (simp add: confirm_gate_cases)
    then have x: "create w = (?tr1 @ [?gate], Inl (Exit 1))"
      unfolding c by (rule seq_Inl)
    show "snd (create w) = Inl (Exit 1)"
      by (simp add: x)
    show "list_all (\<lambda>e. \<not> writes_files e) (fst (create w))"
      using tr1_writes by (simp add: x)
  qed
qed

theorem confirmation_gate_witness:
  "AskConfirm ''Directory not empty. Continue?'' \<notin> set (fst (create nominal)) \<and>
   AskConfirm ''Directory not empty. Continue?''
     \<notin> set (fst (create (nominal\<lparr>existsSync := (\<lambda>_. True), readdirSync := (\<lambda>_. Some [])\<rparr>))) \<and>
   create occupied =
     ([Intro ''Welcome!'', AskConfirm ''Directory not empty. Continue?''], Inl (Exit 1))"
proof -
  let ?empty = "nominal\<lparr>existsSync := (\<lambda>_. True), readdirSync := (\<lambda>_. Some [])\<rparr>"
  have 1: "snd (resolve_cwd nominal []) = Inr ''my-app''"
    "\<not> existsSync nominal ''my-app''"
    by (simp_all add: nominal_def resolve_cwd_def ret_def)
  have 2: "snd (resolve_cwd ?empty []) = Inr ''my-app''"
    "readdirSync ?empty ''my-app'' = Some []"
    by (simp_all add: nominal_def resolve_cwd_def ret_def)
  have 3: "snd (resolve_cwd occupied []) = Inr ''my-app''"
    "existsSync occupied ''my-app'' \<and> readdirSync occupied ''my-app'' = Some [''README.md'']"
    "confirm_force occupied \<noteq> Answered True"
    by (simp_all add: occupied_def nominal_def resolve_cwd_def ret_def)
  have run: "create occupied =
     ([Intro ''Welcome!'', AskConfirm ''Directory not empty. Continue?''], Inl (Exit 1))"
    by code_simp
  show ?thesis
    using confirmation_gate [OF 1(1)] 1(2) confirmation_gate [OF 2(1)] 2(2)
      confirmation_gate [OF 3(1)] 3(2,3) run
    by simp
qed

subsection \<open>The base templates\<close>

lemma bind_InrE:
  assumes "bind m f tr = (tr', Inr b)"
  obtains tr1 a where "m tr = (tr1, Inr a)" and "f a tr1 = (tr', Inr b)"
  using assms by (auto simp: bind_def split: prod.splits sum.splits)

lemma seq_InrE:
  assumes "seq m k tr = (tr', Inr b)"
  obtains tr1 where "m tr = (tr1, Inr ())" and "k tr1 = (tr', Inr b)"
  using assms unfolding seq_def by (elim bind_InrE) simp

lemma group_prompt_Inr: "group_prompt e a tr = (tr', Inr v) \<Longrightarrow> a = Answered v"
  by (auto simp: group_prompt_def ask_def seq_def bind_def emit_def ret_def exit_process_def
      split: answer.splits)

lemma collect_options_result:
  assumes "collect_options w tr = (tr', Inr opts)"
  shows "select_types w = Answered (types opts) \<and>
         multiselect_features w = Answered (features opts) \<and>
         multiselect_extras w = Answered (extras opts) \<and>
         confirm_git w = Answered (git opts) \<and>
         select_packageManager w = Answered (packageManager opts) \<and>
         confirm_install w = Answered (install opts)"
  using assms unfolding collect_options_def
  by (elim bind_InrE) (auto simp: ret_def dest!: group_prompt_Inr)

lemma prepare_result:
  assumes "prepare w [] = (tr0, Inr (cwd, opts))"
  shows "select_types w = Answered (types opts) \<and>
         multiselect_features w = Answered (features opts) \<and>
         multiselect_extras w = Answered (extras opts) \<and>
         confirm_git w = Answered (git opts) \<and>
         select_packageManager w = Answered (packageManager opts) \<and>
         confirm_install w = Answered (install opts)"
  using assms unfolding prepare_def
  by (elim bind_InrE seq_InrE) (auto simp: ret_def dest: collect_options_result)

text \<open>
  C7. In every run that gets as far as the template copy, exactly one of the two base
  template sets is copied, into the target directory: \<^verbatim>\<open>typescript\<close> when the chosen
  mode is \<^verbatim>\<open>typescript\<close>, \<^verbatim>\<open>javascript\<close> for any other mode (\<^verbatim>\<open>checkjs\<close> and
  \<^verbatim>\<open>null\<close>); the mode is the answer to the type-checking prompt.
\<close>

theorem base_template_exactly_one:
  assumes "prepare w [] = (tr0, Inr (cwd, opts))"
  shows "select_types w = Answered (types opts) \<and>
         filter is_base_copy (fst (create w)) =
           [Copy (if types opts = ''typescript'' then ''typescript'' else ''javascript'') cwd]"
proof
  show "select_types w = Answered (types opts)"
    using prepare_result [OF assms] by simp
  let ?P = "\<lambda>e. \<not> is_base_copy e"
  let ?c = "Copy (if types opts = ''typescript'' then ''typescript'' else ''javascript'') cwd"
  have "emits ?P (prepare w)"
    by (intro emits_prepare) simp_all
  from emits_trace [OF this assms] have tr0: "filter is_base_copy tr0 = []"
    by (auto simp: list_all_iff)
  have cp: "fst (copy_templates w cwd opts tr0) = tr0 @ [?c]"
    by (simp add: copy_templates_def copy_def fallible_def)
  have after: "emits ?P (after_templates w cwd opts)"
    by (intro emits_after_templates) simp_all
  have "filter is_base_copy (fst (finish w cwd opts tr0)) = [?c]"
  proof (cases "snd (copy_templates w cwd opts tr0)")
    case (Inl s)
    then have "finish w cwd opts tr0 = (tr0 @ [?c], Inl s)"
      unfolding finish_def using cp
      by (intro seq_Inl) (metis prod.collapse)
    then show ?thesis using tr0 by simp
  next
    case (Inr u)
    then have "finish w cwd opts tr0 = after_templates w cwd opts (tr0 @ [?c])"
      unfolding finish_def using cp
      by (intro seq_Inr) (metis prod.collapse old.unit.exhaust)
    moreover obtain es where "fst (after_templates w cwd opts (tr0 @ [?c])) = (tr0 @ [?c]) @ es"
      "list_all ?P es"
      using emitsD [OF after, of "tr0 @ [?c]"] by blast
    ultimately show ?thesis
      using tr0 by (auto simp: list_all_iff filter_empty_conv)
  qed
  then show "filter is_base_copy (fst (create w)) = [?c]"
    by (simp add: create_reached [OF assms])
qed

theorem base_template_exactly_one_witness:
  "filter is_base_copy (fst (create nominal)) = [Copy ''javascript'' ''my-app''] \<and>
   filter is_base_copy (fst (create (nominal\<lparr>select_types := Answered ''typescript''\<rparr>))) =
     [Copy ''typescript'' ''my-app'']"
proof -
  let ?ts = "nominal\<lparr>select_types := Answered ''typescript''\<rparr>"
  let ?js = "\<lparr>types = ''checkjs'', features = [], extras = [], git = True,
        packageManager = ''npm'', install = True\<rparr>"
  have "snd (prepare nominal []) = Inr (''my-app'', ?js)"
    by code_simp
  then have 1: "prepare nominal [] = (fst (prepare nominal []), Inr (''my-app'', ?js))"
    by (simp add: prod_eq_iff)
  have "snd (prepare ?ts []) = Inr (''my-app'', ?js\<lparr>types := ''typescript''\<rparr>)"
    by code_simp
  then have 2: "prepare ?ts [] =
      (fst (prepare ?ts []), Inr (''my-app'', ?js\<lparr>types := ''typescript''\<rparr>))"
    by (simp add: prod_eq_iff)
  show ?thesis
    using base_template_exactly_one [OF 1] base_template_exactly_one [OF 2]
    by simp
qed

subsection \<open>The steps after the template copy, one by one\<close>

lemma install_step_cases:
  "install_step w cwd opts tr =
     (if \<not> install opts then (tr, Inr opts)
      else if execa_ok w
                (tr @ [SpinnerStart (''Installing dependencies using '' @ packageManager opts)])
                (packageManager opts) [''install'']
      then (tr @ [SpinnerStart (''Installing dependencies using '' @ packageManager opts),
                  Execa (packageManager opts) [''install''] cwd,
                  SpinnerStop (''Installed dependencies using '' @ packageManager opts)],
            Inr opts)
      else (tr @ [SpinnerStart (''Installing dependencies using '' @ packageManager opts),
                  Execa (packageManager opts) [''install''] cwd,
                  SpinnerStop ''Failed to install dependencies'',
                  Note ''You can install them manually.'' []],
            Inr (opts\<lparr>install := False\<rparr>)))"
  by (simp add: install_step_def Let_def try_catch_def seq_def bind_def emit_def execa_def
      fallible_def ret_def)

lemma install_step_result:
  assumes "\<And>m. P (SpinnerStart m)" and "\<And>m. P (SpinnerStop m)" and "\<And>m t. P (Note m t)"
    and "P (Execa (packageManager opts) [''install''] cwd)"
  shows "\<exists>ies b. install_step w cwd opts tr = (tr @ ies, Inr (opts\<lparr>install := b\<rparr>)) \<and>
     (b \<longrightarrow> install opts) \<and> list_all P ies"
proof (cases "install opts")
  case False
  show ?thesis
    by (rule exI [of _ "[]"], rule exI [of _ False]) (use False in \<open>simp add: install_step_cases\<close>)
next
  case True
  then have same: "opts\<lparr>install := True\<rparr> = opts"
    by (cases opts) simp
  show ?thesis
  proof (cases "execa_ok w
                (tr @ [SpinnerStart (''Installing dependencies using '' @ packageManager opts)])
                (packageManager opts) [''install'']")
    case ok: True
    show ?thesis
      by (rule exI [of _ "[SpinnerStart (''Installing dependencies using '' @ packageManager opts),
             Execa (packageManager opts) [''install''] cwd,
             SpinnerStop (''Installed dependencies using '' @ packageManager opts)]"],
          rule exI [of _ True])
        (use True ok same assms in \<open>simp add: install_step_cases\<close>)
  next
    case failed: False
    show ?thesis
      by (rule exI [of _ "[SpinnerStart (''Installing dependencies using '' @ packageManager opts),
             Execa (packageManager opts) [''install''] cwd,
             SpinnerStop ''Failed to install dependencies'',
             Note ''You can install them manually.'' []]"],
          rule exI [of _ False])
        (use True failed assms in \<open>simp add: install_step_cases\<close>)
  qed
qed


lemma summary_cases:
  "summary w cwd opts tr =
     (tr @ Outro ''Your project is ready!'' #
           map Print (chosen_lines opts @ next_steps w cwd opts), Inr ())"
  by (simp add: summary_def seq_def bind_def emit_def emit_all_def)


lemma next_steps_install_line:
  "\<not> install opts \<Longrightarrow>
   step_line (1 + (if relative w cwd \<noteq> [] then 1 else 0)) (packageManager opts @ '' install'')
     \<in> set (next_steps w cwd opts)"
  by (simp add: next_steps_def Let_def)

subsection \<open>Only the tailwindcss extra, and no git repository\<close>





subsection \<open>Failing child processes\<close>

text \<open>
  C1. The claim holds of the install step and of the two extras, whose calls sit in
  \<^verbatim>\<open>try\<close> blocks, but not of the git block, which has none: on a host where
  \<^verbatim>\<open>git\<close> cannot be spawned and a git repository was asked for, \<^verbatim>\<open>git init\<close>
  throws out of \<^verbatim>\<open>create\<close>. Nothing is printed, no later step runs, there is no
  summary.
\<close>

theorem git_failure_aborts:
  "create git_missing =
     ([Intro ''Welcome!'', AskSelect ''Add type checking with TypeScript?'',
       AskMultiselect ''Select additional options (use arrow keys/space bar)'',
       AskMultiselect ''Select extras (use arrow keys/space bar)'',
       AskConfirm ''Initialize a git repository?'',
       AskSelect ''Select a package manager'',
       AskConfirm ''Install dependencies using npm?'',
       CreateSvelteKitApp ''my-app'' ''my-app'' (Some ''checkjs'') False False False False,
       ReadManifest ''my-app'', SpinnerStart ''Resolving package versions'',
       SpinnerStop ''Resolved package versions'',
       WriteManifest ''my-app''
         (JObj [(''name'', JStr ''my-app''),
                (''devDependencies'', JObj [(''svelte'', JStr ''^4.0.0'')]),
                (''scripts'', JObj [])]),
       Copy ''javascript'' ''my-app'',
       SpinnerStart ''Installing dependencies using npm'',
       Execa ''npm'' [''install''] ''my-app'',
       SpinnerStop ''Installed dependencies using npm'',
       Execa ''git'' [''init''] ''my-app''],
      Inl Thrown)"
  by code_simp

text \<open>
  C3. When \<^verbatim>\<open>npm install\<close> fails and \<^verbatim>\<open>git\<close> cannot be spawned either, the install
  failure is caught and noted, and then \<^verbatim>\<open>git init\<close> throws out of \<^verbatim>\<open>create\<close>:
  the run does not complete and prints no summary, so no manual install instruction.
\<close>

theorem install_then_git_failure_aborts:
  "create install_and_git_fail =
     ([Intro ''Welcome!'', AskSelect ''Add type checking with TypeScript?'',
       AskMultiselect ''Select additional options (use arrow keys/space bar)'',
       AskMultiselect ''Select extras (use arrow keys/space bar)'',
       AskConfirm ''Initialize a git repository?'',
       AskSelect ''Select a package manager'',
       AskConfirm ''Install dependencies using npm?'',
       CreateSvelteKitApp ''my-app'' ''my-app'' (Some ''checkjs'') False False False False,
       ReadManifest ''my-app'', SpinnerStart ''Resolving package versions'',
       SpinnerStop ''Resolved package versions'',
       WriteManifest ''my-app''
         (JObj [(''name'', JStr ''my-app''),
                (''devDependencies'', JObj [(''svelte'', JStr ''^4.0.0'')]),
                (''scripts'', JObj [])]),
       Copy ''javascript'' ''my-app'',
       SpinnerStart ''Installing dependencies using npm'',
       Execa ''npm'' [''install''] ''my-app'',
       SpinnerStop ''Failed to install dependencies'',
       Note ''You can install them manually.'' [],
       Execa ''git'' [''init''] ''my-app''],
      Inl Thrown)"
  by code_simp

text \<open>
  The install step taken by itself recovers from its failure. A failing install flips the
  flag and nothing else; whenever the git block does not throw (it is not asked for, or
  its three commands succeed), the run completes, the choices the summary sees differ
  from the collected ones in the install flag at most, and the summary names the manual
  install command.
\<close>

lemma changesets_step_total: "\<exists>es. changesets_step w cwd opts tr = (tr @ es, Inr ())"
  by (simp add: changesets_step_def try_catch_def seq_def bind_def emit_def execa_def copy_def
      fallible_def ret_def)

lemma tailwind_step_total: "\<exists>es. tailwind_step w cwd opts tr = (tr @ es, Inr ())"
  by (simp add: tailwind_step_def try_catch_def seq_def bind_def emit_def execa_def copy_def
      fallible_def ret_def)

lemma git_step_total:
  assumes "git opts \<longrightarrow> (\<forall>h args. execa_ok w h ''git'' args)"
  shows "\<exists>es. git_step w cwd opts tr = (tr @ es, Inr ())"
  using assms
  by (simp add: git_step_def seq_def bind_def execa_def fallible_def ret_def)

lemma after_templates_completes:
  assumes "git opts \<longrightarrow> (\<forall>h args. execa_ok w h ''git'' args)"
  shows "\<exists>es b. (b \<longrightarrow> install opts) \<and>
     (install opts \<and> (\<forall>h. \<not> execa_ok w h (packageManager opts) [''install'']) \<longrightarrow> \<not> b) \<and>
     after_templates w cwd opts tr =
       (tr @ es @ Outro ''Your project is ready!''
          # map Print (chosen_lines (opts\<lparr>install := b\<rparr>)
                       @ next_steps w cwd (opts\<lparr>install := b\<rparr>)),
        Inr (opts\<lparr>install := b\<rparr>))"
proof -
  have "\<exists>ies b. install_step w cwd opts tr = (tr @ ies, Inr (opts\<lparr>install := b\<rparr>)) \<and>
      (b \<longrightarrow> install opts) \<and>
      (install opts \<and> (\<forall>h. \<not> execa_ok w h (packageManager opts) [''install'']) \<longrightarrow> \<not> b)"
  proof (cases "install opts \<and> (\<forall>h. \<not> execa_ok w h (packageManager opts) [''install''])")
    case True
    then show ?thesis
      by (intro exI [of _ False] exI [of _ "[SpinnerStart (''Installing dependencies using '' @ packageManager opts),
                  Execa (packageManager opts) [''install''] cwd,
                  SpinnerStop ''Failed to install dependencies'',
                  Note ''You can install them manually.'' []]"])
        (simp add: install_step_cases)
  next
    case False
    obtain ies b where "install_step w cwd opts tr = (tr @ ies, Inr (opts\<lparr>install := b\<rparr>))"
      "b \<longrightarrow> install opts"
      using install_step_result [of "\<lambda>_. True" opts cwd w tr] by auto
    moreover have "install opts \<and> (\<forall>h. \<not> execa_ok w h (packageManager opts) [''install''])
        \<longrightarrow> \<not> b"
      using False by - (rule impI, contradiction)
    ultimately show ?thesis
      by - (rule exI [of _ ies], rule exI [of _ b], intro conjI; assumption)
  qed
  then obtain ies b where i: "install_step w cwd opts tr = (tr @ ies, Inr (opts\<lparr>install := b\<rparr>))"
    "b \<longrightarrow> install opts"
    "install opts \<and> (\<forall>h. \<not> execa_ok w h (packageManager opts) [''install'']) \<longrightarrow> \<not> b"
    by (elim exE conjE) (rule that; assumption)
  let ?o = "opts\<lparr>install := b\<rparr>"
  have "git ?o \<longrightarrow> (\<forall>h args. execa_ok w h ''git'' args)"
    using assms by simp
  from git_step_total [OF this, of cwd "tr @ ies"]
  obtain ges where g: "git_step w cwd ?o (tr @ ies) = ((tr @ ies) @ ges, Inr ())"
    by (elim exE) (rule that)
  obtain ces where c: "changesets_step w cwd ?o ((tr @ ies) @ ges) = (((tr @ ies) @ ges) @ ces, Inr ())"
    using changesets_step_total [of w cwd ?o "(tr @ ies) @ ges"] by (elim exE) (rule that)
  obtain tes where t: "tailwind_step w cwd ?o (((tr @ ies) @ ges) @ ces) =
      ((((tr @ ies) @ ges) @ ces) @ tes, Inr ())"
    using tailwind_step_total [of w cwd ?o "((tr @ ies) @ ges) @ ces"] by (elim exE) (rule that)
  have "after_templates w cwd opts tr =
      seq (summary w cwd ?o) (ret ?o) ((((tr @ ies) @ ges) @ ces) @ tes)"
    unfolding after_templates_def
    by (simp only: bind_Inr [where m = "install_step w cwd opts", OF i(1)]
        seq_Inr [where m = "git_step w cwd ?o", OF g]
        seq_Inr [where m = "changesets_step w cwd ?o", OF c]
        seq_Inr [where m = "tailwind_step w cwd ?o", OF t])
  also have "\<dots> = (tr @ (ies @ ges @ ces @ tes) @ Outro ''Your project is ready!''
          # map Print (chosen_lines ?o @ next_steps w cwd ?o), Inr ?o)"
    by (simp add: seq_def bind_def summary_cases ret_def)
  finally show ?thesis
    using i(2,3)
    by - (rule exI [of _ "ies @ ges @ ces @ tes"], rule exI [of _ b], intro conjI; assumption)
qed

lemma install_failure_recovered:
  assumes "prepare w [] = (tr0, Inr (cwd, opts))"
    and "copy_ok w tr0 (if types opts = ''typescript'' then ''typescript'' else ''javascript'')"
    and "install opts" and "\<forall>h. \<not> execa_ok w h (packageManager opts) [''install'']"
    and "git opts \<longrightarrow> (\<forall>h args. execa_ok w h ''git'' args)"
  shows "snd (create w) = Inr (opts\<lparr>install := False\<rparr>) \<and>
         Print (step_line (1 + (if relative w cwd \<noteq> [] then 1 else 0))
                  (packageManager opts @ '' install'')) \<in> set (fst (create w))"
proof -
  let ?base = "Copy (if types opts = ''typescript'' then ''typescript'' else ''javascript'') cwd"
  have cp: "copy_templates w cwd opts tr0 = (tr0 @ [?base], Inr ())"
    using assms(2) by (cases "types opts = ''typescript''")
      (simp_all add: copy_templates_def copy_def fallible_def)
  obtain es b where b: "install opts \<and> (\<forall>h. \<not> execa_ok w h (packageManager opts) [''install''])
      \<longrightarrow> \<not> b"
    and a: "after_templates w cwd opts (tr0 @ [?base]) =
       ((tr0 @ [?base]) @ es @ Outro ''Your project is ready!''
          # map Print (chosen_lines (opts\<lparr>install := b\<rparr>)
                       @ next_steps w cwd (opts\<lparr>install := b\<rparr>)),
        Inr (opts\<lparr>install := b\<rparr>))"
    using after_templates_completes [OF assms(5), of cwd "tr0 @ [?base]"]
    by (elim exE conjE) (rule that; assumption)
  have nb: "\<not> b"
    using b assms(3,4) by simp
  let ?o = "opts\<lparr>install := False\<rparr>"
  have c: "create w =
       ((tr0 @ [?base]) @ es @ Outro ''Your project is ready!''
          # map Print (chosen_lines ?o @ next_steps w cwd ?o), Inr ?o)"
    using a nb
    by (simp only: create_reached [OF assms(1)] finish_def
        seq_Inr [where m = "copy_templates w cwd opts", OF cp])
  have "step_line (1 + (if relative w cwd \<noteq> [] then 1 else 0)) (packageManager ?o @ '' install'')
      \<in> set (next_steps w cwd ?o)"
    by (rule next_steps_install_line) simp
  then have "Print (step_line (1 + (if relative w cwd \<noteq> [] then 1 else 0))
                  (packageManager opts @ '' install'')) \<in> set (fst (create w))"
    unfolding c by (simp add: image_iff)
  then show ?thesis
    by (simp add: c)
qed

lemma install_flag_only_mutation:
  assumes "create w = (tr, Inr final)"
  shows "\<exists>tr0 cwd opts. prepare w [] = (tr0, Inr (cwd, opts)) \<and>
           final = opts\<lparr>install := install final\<rparr> \<and> (install final \<longrightarrow> install opts)"
proof -
  obtain tr0 cwd opts where p: "prepare w [] = (tr0, Inr (cwd, opts))"
    and f: "finish w cwd opts tr0 = (tr, Inr final)"
    using assms unfolding create_def by (elim bind_InrE) (auto split: prod.splits)
  from f obtain tr1 where a: "after_templates w cwd opts tr1 = (tr, Inr final)"
    unfolding finish_def by (elim seq_InrE)
  then obtain tr2 opts' where i: "install_step w cwd opts tr1 = (tr2, Inr opts')"
    and r: "seq (git_step w cwd opts')
       (seq (changesets_step w cwd opts')
         (seq (tailwind_step w cwd opts') (seq (summary w cwd opts') (ret opts')))) tr2
       = (tr, Inr final)"
    unfolding after_templates_def by (elim bind_InrE)
  from r have "final = opts'"
    by (elim seq_InrE) (simp add: ret_def)
  moreover obtain b where "opts' = opts\<lparr>install := b\<rparr>" "b \<longrightarrow> install opts"
    using install_step_result [of "\<lambda>_. True" opts cwd w tr1] i by auto
  ultimately have "final = opts\<lparr>install := install final\<rparr> \<and> (install final \<longrightarrow> install opts)"
    by simp
  with p show ?thesis
    by blast
qed

lemma install_failure_run:
  "snd (create install_fails) =
     Inr \<lparr>types = ''checkjs'', features = [], extras = [], git = True,
          packageManager = ''npm'', install = False\<rparr> \<and>
   Print ''  2: npm install'' \<in> set (fst (create install_fails))"
  by code_simp

lemma git_step_throws:
  assumes "git opts"
    and "\<not> execa_ok w tr ''git'' [''init''] \<or>
         \<not> execa_ok w (tr @ [Execa ''git'' [''init''] cwd]) ''git'' [''add'', ''-A''] \<or>
         \<not> execa_ok w (tr @ [Execa ''git'' [''init''] cwd, Execa ''git'' [''add'', ''-A''] cwd])
              ''git'' [''commit'', ''-m'', ''Initial commit'']"
  shows "snd (git_step w cwd opts tr) = Inl Thrown"
  using assms
  by (auto simp: git_step_def seq_def bind_def execa_def fallible_def)

end
